theory Spec2Isabelle
  imports Main
begin

section \<open>The product slice of the store (products-slice)\<close>

text \<open>
  A product is passed through unchanged by the client; it is represented by its identifier.
  A rejected thunk carries the object built by \<^verbatim>\<open>rejectWithValue\<close>: its \<^verbatim>\<open>type\<close>,
  \<^verbatim>\<open>message\<close> and \<^verbatim>\<open>code\<close> fields, all strings.
\<close>

type_synonym product = string

record payload =
  ptype :: string
  pmessage :: string
  pcode :: string

text \<open>
  \<^verbatim>\<open>initialState\<close> of the slice. \<^verbatim>\<open>null\<close> and \<^verbatim>\<open>undefined\<close> are both \<open>None\<close>: the
  code only ever tests these fields for truthiness.
\<close>

record slice_state =
  isLoading :: bool
  productList :: "product list"
  productDetails :: "product option"
  error :: "payload option"
  firebaseError :: "payload option"
  authError :: "payload option"

definition initialState :: slice_state where
  "initialState =
     \<lparr>isLoading = False, productList = [], productDetails = None,
      error = None, firebaseError = None, authError = None\<rparr>"

subsection \<open>Reducers\<close>

definition clearProductErrors :: "slice_state \<Rightarrow> slice_state" where
  "clearProductErrors s = s\<lparr>error := None, firebaseError := None, authError := None\<rparr>"

definition clearProductList :: "slice_state \<Rightarrow> slice_state" where
  "clearProductList s = s\<lparr>productList := [], error := None\<rparr>"

definition fetchAllFilteredProducts_pending :: "slice_state \<Rightarrow> slice_state" where
  "fetchAllFilteredProducts_pending s =
     s\<lparr>isLoading := True, error := None, firebaseError := None, authError := None\<rparr>"

text \<open>
  The argument of a fulfilled reducer is \<^verbatim>\<open>action.payload.data\<close>, \<open>None\<close> when the
  response body has no such field; \<^verbatim>\<open>data || []\<close> then stores the empty list (an empty
  array is truthy and is stored as it is).
\<close>

definition fetchAllFilteredProducts_fulfilled ::
    "product list option \<Rightarrow> slice_state \<Rightarrow> slice_state" where
  "fetchAllFilteredProducts_fulfilled d s =
     s\<lparr>isLoading := False,
       productList := (case d of None \<Rightarrow> [] | Some ps \<Rightarrow> ps),
       error := None\<rparr>"

text \<open>
  The argument of a rejected reducer is \<^verbatim>\<open>action.payload\<close>, \<open>None\<close> when the thunk threw
  instead of returning \<^verbatim>\<open>rejectWithValue\<close>; \<^verbatim>\<open>action.payload?.type\<close> is then undefined
  and the last branch is taken.
\<close>

definition fetchAllFilteredProducts_rejected ::
    "payload option \<Rightarrow> slice_state \<Rightarrow> slice_state" where
  "fetchAllFilteredProducts_rejected p s =
     (let s1 = s\<lparr>isLoading := False, productList := [], error := p\<rparr>
      in if map_option ptype p = Some ''AUTH_ERROR'' then s1\<lparr>authError := p\<rparr>
         else if map_option ptype p = Some ''NOT_FOUND'' then s1\<lparr>firebaseError := p\<rparr>
         else s1\<lparr>error := p\<rparr>)"

definition fetchProductsFromMongoDB_pending :: "slice_state \<Rightarrow> slice_state" where
  "fetchProductsFromMongoDB_pending s = s\<lparr>isLoading := True, error := None\<rparr>"

definition fetchProductsFromMongoDB_fulfilled ::
    "product list option \<Rightarrow> slice_state \<Rightarrow> slice_state" where
  "fetchProductsFromMongoDB_fulfilled d s =
     s\<lparr>isLoading := False,
       productList := (case d of None \<Rightarrow> [] | Some ps \<Rightarrow> ps),
       error := None\<rparr>"

definition fetchProductsFromMongoDB_rejected ::
    "payload option \<Rightarrow> slice_state \<Rightarrow> slice_state" where
  "fetchProductsFromMongoDB_rejected p s =
     s\<lparr>isLoading := False, productList := [], error := p\<rparr>"

section \<open>The thunks' error handling\<close>

text \<open>
  What the \<^verbatim>\<open>catch\<close> blocks read of the caught value: \<^verbatim>\<open>error.response\<close> with its
  \<^verbatim>\<open>status\<close> and \<^verbatim>\<open>data\<close>, \<^verbatim>\<open>error.code\<close> and \<^verbatim>\<open>error.message\<close>. A field that is
  absent is \<open>None\<close>. \<^verbatim>\<open>response.data\<close> is \<open>None\<close> when the body is \<^verbatim>\<open>null\<close> or
  \<^verbatim>\<open>undefined\<close>; any other body is a value whose \<^verbatim>\<open>message\<close> and \<^verbatim>\<open>error\<close> fields
  can be read (and are absent on a body that is not an object).
\<close>

record response_data =
  data_message :: "string option"
  data_error :: "string option"

record response =
  status :: int
  data :: "response_data option"

record axios_error =
  err_response :: "response option"
  err_code :: "string option"
  err_message :: "string option"

datatype js_exception = TypeError

text \<open>\<^verbatim>\<open>v || d\<close> on an optional string: an absent field and the empty string are falsy.\<close>

definition or_default :: "string option \<Rightarrow> string \<Rightarrow> string" where
  "or_default v d = (case v of None \<Rightarrow> d | Some s \<Rightarrow> if s = [] then d else s)"

text \<open>
  Reading a field of \<^verbatim>\<open>data\<close> when \<^verbatim>\<open>data\<close> is \<^verbatim>\<open>null\<close> throws a TypeError inside
  the \<^verbatim>\<open>catch\<close> block, which the block does not handle.
\<close>

definition read_field ::
    "response_data option \<Rightarrow> (response_data \<Rightarrow> string option) \<Rightarrow> js_exception + string option" where
  "read_field d f = (case d of None \<Rightarrow> Inl TypeError | Some b \<Rightarrow> Inr (f b))"

text \<open>
  The \<^verbatim>\<open>catch\<close> block of \<^verbatim>\<open>fetchAllFilteredProducts\<close>. \<^verbatim>\<open>debugAuthStateAsync\<close>, awaited
  on a 401, only logs.
\<close>

definition fetchAllFilteredProducts_catch :: "axios_error \<Rightarrow> js_exception + payload" where
  "fetchAllFilteredProducts_catch e =
     (case err_response e of
        Some r \<Rightarrow>
          if status r = 401 then
            (case read_field (data r) data_message of
               Inl x \<Rightarrow> Inl x
             | Inr m \<Rightarrow> Inr \<lparr>ptype = ''AUTH_ERROR'',
                            pmessage = or_default m ''Authentication required. Please log in.'',
                            pcode = ''UNAUTHORIZED''\<rparr>)
          else if status r = 404 then
            Inr \<lparr>ptype = ''NOT_FOUND'', pmessage = ''Products not found'',
                 pcode = ''PRODUCTS_NOT_FOUND''\<rparr>
          else if status r = 500 then
            (case read_field (data r) data_error of
               Inl x \<Rightarrow> Inl x
             | Inr m \<Rightarrow> Inr \<lparr>ptype = ''SERVER_ERROR'',
                            pmessage = or_default m ''Server error while fetching products'',
                            pcode = ''SERVER_ERROR''\<rparr>)
          else
            (case read_field (data r) data_message of
               Inl x \<Rightarrow> Inl x
             | Inr m \<Rightarrow> Inr \<lparr>ptype = ''API_ERROR'',
                            pmessage = or_default m ''Failed to fetch products'',
                            pcode = ''API_ERROR''\<rparr>)
      | None \<Rightarrow>
          if err_code e = Some ''ECONNABORTED'' then
            Inr \<lparr>ptype = ''NETWORK_ERROR'',
                 pmessage = ''Request timeout. Please check your connection.'',
                 pcode = ''TIMEOUT''\<rparr>
          else
            Inr \<lparr>ptype = ''NETWORK_ERROR'',
                 pmessage = or_default (err_message e) ''Network error occurred'',
                 pcode = ''NETWORK_ERROR''\<rparr>)"

text \<open>
  The \<^verbatim>\<open>catch\<close> block of \<^verbatim>\<open>fetchProductsFromMongoDB\<close>:
  \<^verbatim>\<open>error.response?.data?.message\<close> never throws.
\<close>

definition fetchProductsFromMongoDB_catch :: "axios_error \<Rightarrow> payload" where
  "fetchProductsFromMongoDB_catch e =
     \<lparr>ptype = ''DATABASE_ERROR'',
      pmessage = or_default
        (case err_response e of None \<Rightarrow> None
         | Some r \<Rightarrow> (case data r of None \<Rightarrow> None | Some b \<Rightarrow> data_message b))
        ''Failed to fetch products'',
      pcode = ''DATABASE_ERROR''\<rparr>"

text \<open>
  \<^verbatim>\<open>createAsyncThunk\<close> dispatches the rejected action with the value given to
  \<^verbatim>\<open>rejectWithValue\<close> as \<^verbatim>\<open>action.payload\<close>, and with an undefined payload when the
  payload creator threw.
\<close>

definition rejected_payload :: "js_exception + payload \<Rightarrow> payload option" where
  "rejected_payload r = (case r of Inl _ \<Rightarrow> None | Inr p \<Rightarrow> Some p)"

text \<open>
  The error categories of the specification, read off a payload: the \<^verbatim>\<open>type\<close> tag decides,
  and the \<^verbatim>\<open>code\<close> tells a timeout from the other network errors (both have the type
  \<^verbatim>\<open>NETWORK_ERROR\<close>). \<^verbatim>\<open>DATABASE_ERROR\<close> is none of the six.
\<close>

datatype category = Unauthorized | NotFound | ServerFault | Timeout | NetworkFault | GenericApiFault

definition category_of :: "payload \<Rightarrow> category option" where
  "category_of p =
     (if ptype p = ''AUTH_ERROR'' then Some Unauthorized
      else if ptype p = ''NOT_FOUND'' then Some NotFound
      else if ptype p = ''SERVER_ERROR'' then Some ServerFault
      else if ptype p = ''API_ERROR'' then Some GenericApiFault
      else if ptype p = ''NETWORK_ERROR'' then
        (if pcode p = ''TIMEOUT'' then Some Timeout else Some NetworkFault)
      else None)"

section \<open>The listing view (ShoppingListing)\<close>

text \<open>
  The component's own state next to the slice it selects: \<^verbatim>\<open>fallbackMode\<close>, \<^verbatim>\<open>filters\<close>
  and \<^verbatim>\<open>sort\<close>. Two logs make the effects observable: the toasts shown and the thunks
  dispatched, each thunk with the \<^verbatim>\<open>filterParams\<close> and \<^verbatim>\<open>sortParams\<close> it was given.
\<close>

type_synonym filter_params = "(string \<times> string list) list"

datatype toast = AuthenticationRequired string | UsingBackupDatabase

datatype thunk = FetchAllFilteredProducts | FetchProductsFromMongoDB

record view =
  shopProducts :: slice_state
  fallbackMode :: bool
  filters :: "filter_params option"
  sort_value :: "string option"
  toasts :: "toast list"
  dispatched :: "(thunk \<times> filter_params \<times> string) list"

text \<open>
  Dispatching a thunk runs its pending reducer at once; the request is then in flight
  until a fulfilled or rejected action arrives.
\<close>

definition dispatch_thunk :: "thunk \<Rightarrow> filter_params \<Rightarrow> string \<Rightarrow> view \<Rightarrow> view" where
  "dispatch_thunk t f so v =
     v\<lparr>shopProducts :=
         (case t of
            FetchAllFilteredProducts \<Rightarrow> fetchAllFilteredProducts_pending (shopProducts v)
          | FetchProductsFromMongoDB \<Rightarrow> fetchProductsFromMongoDB_pending (shopProducts v)),
       dispatched := dispatched v @ [(t, f, so)]\<rparr>"

text \<open>
  \<^verbatim>\<open>fetchProducts\<close> is a closure of the render that created it: it reads \<^verbatim>\<open>filters\<close>,
  \<^verbatim>\<open>sort\<close> and \<^verbatim>\<open>fallbackMode\<close> of that render (the first argument) and dispatches
  into the live store (the second).
\<close>

definition fetchProducts :: "view \<Rightarrow> view \<Rightarrow> view" where
  "fetchProducts snap v =
     (case (filters snap, sort_value snap) of
        (Some f, Some so) \<Rightarrow>
          if fallbackMode snap then dispatch_thunk FetchProductsFromMongoDB f so v
          else dispatch_thunk FetchAllFilteredProducts f so v
      | _ \<Rightarrow> v)"

subsection \<open>Effects\<close>

text \<open>
  An effect runs after a render, with the values of that render (\<open>snap\<close>), and acts on
  the live state (\<open>v\<close>): a dispatch changes the store at once, a state setter takes
  effect at the next render. React runs an effect when one of its dependencies differs
  from the previous render (\<open>prev\<close>). For the first two effects the test of the body
  stands for that comparison: the body of the first clears \<^verbatim>\<open>authError\<close> and the body of
  the second sets \<^verbatim>\<open>fallbackMode\<close>, so neither meets its test again with unchanged
  dependencies.
\<close>

definition authError_effect :: "view \<Rightarrow> view \<Rightarrow> view" where
  "authError_effect snap v =
     (case authError (shopProducts snap) of
        None \<Rightarrow> v
      | Some p \<Rightarrow>
          v\<lparr>toasts := toasts v @
                [AuthenticationRequired
                   (or_default (Some (pmessage p)) ''Please log in to view products'')],
            shopProducts := clearProductErrors (shopProducts v)\<rparr>)"

definition firebaseError_effect :: "view \<Rightarrow> view \<Rightarrow> view" where
  "firebaseError_effect snap v =
     (if firebaseError (shopProducts snap) \<noteq> None \<and> \<not> fallbackMode snap
      then v\<lparr>fallbackMode := True, toasts := toasts v @ [UsingBackupDatabase]\<rparr>
      else v)"

definition deps_changed :: "view \<Rightarrow> view \<Rightarrow> bool" where
  "deps_changed prev snap \<longleftrightarrow>
     sort_value prev \<noteq> sort_value snap \<or> filters prev \<noteq> filters snap
     \<or> fallbackMode prev \<noteq> fallbackMode snap"

definition fetch_effect :: "view \<Rightarrow> view \<Rightarrow> view \<Rightarrow> view" where
  "fetch_effect prev snap v = (if deps_changed prev snap then fetchProducts snap v else v)"

text \<open>The effects of one render, in the order the component declares them.\<close>

definition run_effects :: "view \<Rightarrow> view \<Rightarrow> view" where
  "run_effects prev snap =
     fetch_effect prev snap (firebaseError_effect snap (authError_effect snap snap))"

definition effects_due :: "view \<Rightarrow> view \<Rightarrow> bool" where
  "effects_due prev snap \<longleftrightarrow>
     authError (shopProducts snap) \<noteq> None
     \<or> (firebaseError (shopProducts snap) \<noteq> None \<and> \<not> fallbackMode snap)
     \<or> deps_changed prev snap"

definition effect_weight :: "view \<times> view \<Rightarrow> nat" where
  "effect_weight pv =
     (if authError (shopProducts (snd pv)) \<noteq> None then 1 else 0)
     + (if firebaseError (shopProducts (snd pv)) \<noteq> None \<and> \<not> fallbackMode (snd pv)
        then 2 else 0)
     + (if deps_changed (fst pv) (snd pv) then 1 else 0)"

text \<open>
  After an event the component renders and runs its effects, again and again while an
  effect changes the state. Every event is taken to be handled to the end before the
  next one arrives.
\<close>

function settle :: "view \<Rightarrow> view \<Rightarrow> view" where
  "settle prev snap =
     (if effects_due prev snap then settle snap (run_effects prev snap) else snap)"
  by pat_completeness auto
termination
proof (relation "measure effect_weight")
  show "wf (measure effect_weight)"
    by simp
next
  fix prev snap
  assume due: "effects_due prev snap"
  let ?n = "run_effects prev snap"
  note defs = run_effects_def fetch_effect_def fetchProducts_def dispatch_thunk_def
    firebaseError_effect_def authError_effect_def clearProductErrors_def
    fetchAllFilteredProducts_pending_def fetchProductsFromMongoDB_pending_def
  have same: "filters ?n = filters snap" "sort_value ?n = sort_value snap"
    by (simp_all add: defs split: option.splits)
  have mode: "fallbackMode ?n = (fallbackMode snap \<or> firebaseError (shopProducts snap) \<noteq> None)"
    by (auto simp add: defs split: option.splits)
  have auth: "authError (shopProducts ?n) = None"
    by (simp add: defs split: option.splits)
  have fire: "firebaseError (shopProducts ?n) \<noteq> None \<Longrightarrow> fallbackMode ?n"
    unfolding mode by (auto simp add: defs split: option.splits if_splits)
  have "effect_weight (snap, ?n) < effect_weight (prev, snap)"
    using due fire unfolding effect_weight_def effects_due_def deps_changed_def
    by (auto simp add: same mode auth)
  then show "((snap, run_effects prev snap), (prev, snap)) \<in> measure effect_weight"
    by simp
qed

subsection \<open>Events\<close>

text \<open>
  \<^verbatim>\<open>handleRetryWithFirebase\<close>: the setter, the dispatch of \<^verbatim>\<open>clearProductErrors\<close>, and
  a call of the \<^verbatim>\<open>fetchProducts\<close> of the render in which the button was shown.
\<close>

definition handleRetryWithFirebase :: "view \<Rightarrow> view" where
  "handleRetryWithFirebase v =
     fetchProducts v
       (v\<lparr>fallbackMode := False, shopProducts := clearProductErrors (shopProducts v)\<rparr>)"

text \<open>
  What happens to the mounted view: the user picks a sort order, presses Try Again or
  Switch to Primary, the errors are cleared, or a thunk in flight settles: with the
  \<^verbatim>\<open>data\<close> field of the response body, or with the value its \<^verbatim>\<open>try\<close> block threw, which
  the \<^verbatim>\<open>catch\<close> block turns into the payload of the rejected action. A settled thunk
  names the request it answers by the position of that request in the log of dispatched
  thunks (the \<^verbatim>\<open>requestId\<close> of the action); no reducer reads it. The filters stay as
  the mount has set them.
\<close>

datatype event =
    SetSort string
  | TryAgain
  | Succeeded thunk nat "product list option"
  | Failed thunk nat axios_error
  | RetryWithFirebase
  | ClearProductErrors

fun handle :: "event \<Rightarrow> view \<Rightarrow> view" where
  "handle (SetSort key) v = v\<lparr>sort_value := Some key\<rparr>"
| "handle TryAgain v = fetchProducts v v"
| "handle (Succeeded FetchAllFilteredProducts k d) v =
     v\<lparr>shopProducts := fetchAllFilteredProducts_fulfilled d (shopProducts v)\<rparr>"
| "handle (Succeeded FetchProductsFromMongoDB k d) v =
     v\<lparr>shopProducts := fetchProductsFromMongoDB_fulfilled d (shopProducts v)\<rparr>"
| "handle (Failed FetchAllFilteredProducts k e) v =
     v\<lparr>shopProducts :=
         fetchAllFilteredProducts_rejected
           (rejected_payload (fetchAllFilteredProducts_catch e)) (shopProducts v)\<rparr>"
| "handle (Failed FetchProductsFromMongoDB k e) v =
     v\<lparr>shopProducts :=
         fetchProductsFromMongoDB_rejected
           (Some (fetchProductsFromMongoDB_catch e)) (shopProducts v)\<rparr>"
| "handle RetryWithFirebase v = handleRetryWithFirebase v"
| "handle ClearProductErrors v =
     v\<lparr>shopProducts := clearProductErrors (shopProducts v)\<rparr>"

definition process :: "event \<Rightarrow> view \<Rightarrow> view" where
  "process e v = settle v (handle e v)"

fun run :: "event list \<Rightarrow> view \<Rightarrow> view" where
  "run [] v = v"
| "run (e # es) v = run es (process e v)"

text \<open>
  The view at its first render: the \<^verbatim>\<open>useState\<close> defaults over the initial store. The
  model follows one life of the view, from this render on.
\<close>

definition initial_view :: view where
  "initial_view =
     \<lparr>shopProducts = initialState, fallbackMode = False, filters = Some [], sort_value = None,
      toasts = [], dispatched = []\<rparr>"

text \<open>
  The mount. The effects of the first render all run: the setup effect sets \<^verbatim>\<open>sort\<close> and
  takes the filters kept in the session storage (\<open>stored\<close>; the empty object without
  any), and the fetch effect of that render still sees no sort order. The renders that
  follow send the first fetch. The effect that mirrors the filters into the URL is left
  out; where it makes the setup effect run again, the fetch that follows is a Try Again.
\<close>

definition mounted_view :: "filter_params option \<Rightarrow> view" where
  "mounted_view stored =
     settle initial_view
       (fetchProducts initial_view
          (initial_view\<lparr>sort_value := Some ''price-lowtohigh'',
             filters := Some (case stored of None \<Rightarrow> [] | Some f \<Rightarrow> f)\<rparr>))"

section \<open>The Firestore product query of the server (products-controller)\<close>

text \<open>
  A query parameter as Express hands it over: absent, a string, or an array of strings
  (a repeated parameter). \<^verbatim>\<open>split\<close> of JavaScript: the pieces between the separators,
  one piece (the empty string) for the empty string.
\<close>

datatype query_param = Absent | Str string | Arr "string list"

fun split_on :: "char \<Rightarrow> string \<Rightarrow> string list" where
  "split_on c [] = [[]]"
| "split_on c (x # xs) =
     (if x = c then [] # split_on c xs
      else (case split_on c xs of [] \<Rightarrow> [[x]] | y # ys \<Rightarrow> (x # y) # ys))"

text \<open>
  \<^verbatim>\<open>typeof category === "string" ? category.split(",").filter(Boolean) : category\<close>,
  with the default \<^verbatim>\<open>[]\<close> of the destructuring for an absent parameter.
\<close>

definition parse_values :: "query_param \<Rightarrow> string list" where
  "parse_values q =
     (case q of
        Absent \<Rightarrow> []
      | Str s \<Rightarrow> filter (\<lambda>x. x \<noteq> []) (split_on (CHR '','') s)
      | Arr xs \<Rightarrow> xs)"

datatype direction = Asc | Desc

text \<open>
  The argument of \<^verbatim>\<open>limit\<close> is \<^verbatim>\<open>parseInt(pageLimit) * parseInt(page)\<close>, a floating
  point product that can be NaN. The constraint keeps the two parameters it is computed
  from, as the request has them (\<open>None\<close>: absent, so the defaults 20 and 1).
\<close>

datatype constraint =
    Where_in string "string list"
  | OrderBy string direction
  | Limit "string option" "string option"

text \<open>
  The request: the id of \<^verbatim>\<open>req.user\<close> (\<open>None\<close> without a user or an id), which the
  route's \<^verbatim>\<open>authMiddleware\<close> sets, and the query parameters.
\<close>

record request =
  user_id :: "string option"
  category :: query_param
  brand :: query_param
  sortBy :: "string option"
  page :: "string option"
  pageLimit :: "string option"

text \<open>
  What the controller takes from the module \<^verbatim>\<open>firebase-admin/firestore\<close> by
  destructuring. A name the module does not export is \<^verbatim>\<open>undefined\<close>, and calling it
  throws a TypeError inside the \<^verbatim>\<open>try\<close> block of the handler. The record says of each
  name the handler calls whether it is a function; \<^verbatim>\<open>getDocs\<close>, where it is one, gives
  the documents of a query or throws.
\<close>

record firestore_module =
  has_collection :: bool
  has_where :: bool
  has_orderBy :: bool
  has_limit :: bool
  has_query :: bool
  getDocs :: "(constraint list \<Rightarrow> js_exception + product list) option"

text \<open>
  The module as the admin SDK has it: it exports the classes of the server API and
  \<^verbatim>\<open>getFirestore\<close>, and none of these names, which are the functions of the client SDK
  (\<^verbatim>\<open>firebase/firestore\<close>). The \<^verbatim>\<open>db\<close> of the helper is \<^verbatim>\<open>admin.firestore()\<close>, and the
  feature controller uses the server API on it: \<^verbatim>\<open>db.collection("features")\<close>.
\<close>

definition firebase_admin_firestore :: firestore_module where
  "firebase_admin_firestore =
     \<lparr>has_collection = False, has_where = False, has_orderBy = False, has_limit = False,
      has_query = False, getDocs = None\<rparr>"

definition verifyAuthentication :: "request \<Rightarrow> bool" where
  "verifyAuthentication req = (case user_id req of None \<Rightarrow> False | Some i \<Rightarrow> i \<noteq> [])"

definition facet_constraint :: "string \<Rightarrow> string list \<Rightarrow> constraint list" where
  "facet_constraint field vs =
     (if length vs > 0 then [Where_in field (take 10 vs)] else [])"

definition sort_constraint :: "string option \<Rightarrow> constraint" where
  "sort_constraint sb =
     (let key = (case sb of None \<Rightarrow> ''price-lowtohigh'' | Some k \<Rightarrow> k)
      in if key = ''price-lowtohigh'' then OrderBy ''price'' Asc
         else if key = ''price-hightolow'' then OrderBy ''price'' Desc
         else if key = ''title-atoz'' then OrderBy ''title'' Asc
         else if key = ''title-ztoa'' then OrderBy ''title'' Desc
         else OrderBy ''price'' Asc)"

text \<open>The \<^verbatim>\<open>constraints\<close> array the handler fills, in the order of its pushes.\<close>

definition query_constraints :: "request \<Rightarrow> constraint list" where
  "query_constraints req =
     (let categories = parse_values (category req);
          brands = parse_values (brand req)
      in facet_constraint ''category'' categories
         @ facet_constraint ''brand'' brands
         @ [sort_constraint (sortBy req)]
         @ [Limit (pageLimit req) (page req)])"

text \<open>
  \<^verbatim>\<open>getFilteredProductsFromFirebase\<close>. A request that is not authenticated gets a 401.
  The calls then follow in the order of the source: \<^verbatim>\<open>collection\<close>, \<^verbatim>\<open>where\<close> for a
  facet with values, \<^verbatim>\<open>orderBy\<close>, \<^verbatim>\<open>limit\<close>, \<^verbatim>\<open>query\<close> and \<^verbatim>\<open>getDocs\<close>; the first one
  that throws ends in the \<^verbatim>\<open>catch\<close> block, which answers 500. Otherwise the answer is a
  200 built from the documents the query gave (a page of them, their number, the page
  number and the number of pages); the outcome keeps the constraints of the query and
  these documents.
\<close>

datatype outcome = Status401 | Status500 | Status200 "constraint list" "product list"

definition getFilteredProductsFromFirebase :: "firestore_module \<Rightarrow> request \<Rightarrow> outcome" where
  "getFilteredProductsFromFirebase m req =
     (if \<not> verifyAuthentication req then Status401
      else
        let categories = parse_values (category req);
            brands = parse_values (brand req)
        in if \<not> has_collection m then Status500
           else if (length categories > 0 \<or> length brands > 0) \<and> \<not> has_where m
             then Status500
           else if \<not> has_orderBy m then Status500
           else if \<not> has_limit m then Status500
           else if \<not> has_query m then Status500
           else (case getDocs m of
                   None \<Rightarrow> Status500
                 | Some documents_of \<Rightarrow>
                     (case documents_of (query_constraints req) of
                        Inl x \<Rightarrow> Status500
                      | Inr docs \<Rightarrow> Status200 (query_constraints req) docs)))"

section \<open>Notions used to state the properties\<close>

text \<open>A view is at rest when no effect is due: the state between two events.\<close>

definition at_rest :: "view \<Rightarrow> bool" where
  "at_rest v \<longleftrightarrow> \<not> effects_due v v"

text \<open>The number of "Using Backup Database" toasts shown so far.\<close>

definition switched_count :: "view \<Rightarrow> nat" where
  "switched_count v = count_list (toasts v) UsingBackupDatabase"

text \<open>
  What holds of the view between events: no \<^verbatim>\<open>authError\<close> is left, and in primary mode
  there is no \<^verbatim>\<open>firebaseError\<close> and the \<^verbatim>\<open>error\<close> shown is not an Unauthorized or
  NotFound one (\<open>source_level\<close>).
\<close>

definition source_level :: "payload option \<Rightarrow> bool" where
  "source_level q =
     (case q of
        None \<Rightarrow> False
      | Some p \<Rightarrow> category_of p = Some Unauthorized \<or> category_of p = Some NotFound)"

definition view_invariant :: "view \<Rightarrow> bool" where
  "view_invariant v =
     (authError (shopProducts v) = None
      \<and> (fallbackMode v
         \<or> (firebaseError (shopProducts v) = None \<and> \<not> source_level (error (shopProducts v)))))"

text \<open>
  The rules of the primary thunk's \<^verbatim>\<open>catch\<close> block as a table, in the order the block
  tests them: the category, and the message (the field of the body that is used, or the
  fixed string).
\<close>

definition rule_category :: "axios_error \<Rightarrow> category" where
  "rule_category e =
     (case err_response e of
        Some r \<Rightarrow>
          if status r = 401 then Unauthorized
          else if status r = 404 then NotFound
          else if status r = 500 then ServerFault
          else GenericApiFault
      | None \<Rightarrow> if err_code e = Some ''ECONNABORTED'' then Timeout else NetworkFault)"

definition body_field :: "axios_error \<Rightarrow> (response_data \<Rightarrow> string option) \<Rightarrow> string option" where
  "body_field e f =
     (case err_response e of
        None \<Rightarrow> None
      | Some r \<Rightarrow> (case data r of None \<Rightarrow> None | Some b \<Rightarrow> f b))"

definition rule_message :: "axios_error \<Rightarrow> string" where
  "rule_message e =
     (case rule_category e of
        Unauthorized \<Rightarrow>
          or_default (body_field e data_message) ''Authentication required. Please log in.''
      | NotFound \<Rightarrow> ''Products not found''
      | ServerFault \<Rightarrow>
          or_default (body_field e data_error) ''Server error while fetching products''
      | GenericApiFault \<Rightarrow> or_default (body_field e data_message) ''Failed to fetch products''
      | Timeout \<Rightarrow> ''Request timeout. Please check your connection.''
      | NetworkFault \<Rightarrow> or_default (err_message e) ''Network error occurred'')"

text \<open>The body of the response can be read: it is not \<^verbatim>\<open>null\<close> where the block reads it.\<close>

definition body_readable :: "axios_error \<Rightarrow> bool" where
  "body_readable e =
     (case err_response e of
        None \<Rightarrow> True
      | Some r \<Rightarrow> status r = 404 \<or> data r \<noteq> None)"

subsection \<open>Sample inputs\<close>

text \<open>
  Failures as the \<^verbatim>\<open>catch\<close> blocks can meet them: the 401 of the primary endpoint for a
  request without a user, a 404 whose body carries a message, the 500 of the backup
  endpoint, a 401 that also carries the code \<^verbatim>\<open>ECONNABORTED\<close>, a 500 whose body is
  \<^verbatim>\<open>null\<close>, and a timeout.
\<close>

definition unauthorized_401 :: axios_error where
  "unauthorized_401 =
     \<lparr>err_response = Some \<lparr>status = 401,
        data = Some \<lparr>data_message = Some ''Authentication required to access products'',
                     data_error = Some ''User not authenticated''\<rparr>\<rparr>,
      err_code = Some ''ERR_BAD_REQUEST'',
      err_message = Some ''Request failed with status code 401''\<rparr>"

definition not_found_404 :: axios_error where
  "not_found_404 =
     \<lparr>err_response = Some \<lparr>status = 404,
        data = Some \<lparr>data_message = Some ''No such collection'', data_error = None\<rparr>\<rparr>,
      err_code = Some ''ERR_BAD_REQUEST'',
      err_message = Some ''Request failed with status code 404''\<rparr>"

definition server_error_500 :: axios_error where
  "server_error_500 =
     \<lparr>err_response = Some \<lparr>status = 500,
        data = Some \<lparr>data_message = Some ''Some error occured'', data_error = None\<rparr>\<rparr>,
      err_code = Some ''ERR_BAD_RESPONSE'',
      err_message = Some ''Request failed with status code 500''\<rparr>"

definition stale_code_401 :: axios_error where
  "stale_code_401 =
     \<lparr>err_response = Some \<lparr>status = 401,
        data = Some \<lparr>data_message = None, data_error = None\<rparr>\<rparr>,
      err_code = Some ''ECONNABORTED'',
      err_message = Some ''Request failed with status code 401''\<rparr>"

definition null_body_500 :: axios_error where
  "null_body_500 =
     \<lparr>err_response = Some \<lparr>status = 500, data = None\<rparr>,
      err_code = Some ''ERR_BAD_RESPONSE'',
      err_message = Some ''Request failed with status code 500''\<rparr>"

definition timed_out :: axios_error where
  "timed_out =
     \<lparr>err_response = None, err_code = Some ''ECONNABORTED'',
      err_message = Some ''timeout of 30000ms exceeded''\<rparr>"

text \<open>
  The view after its mount with no stored filters, and that view after a 404 of the
  primary endpoint has switched it to the backup.
\<close>

definition mounted :: view where
  "mounted = mounted_view None"

definition switched :: view where
  "switched = process (Failed FetchAllFilteredProducts 0 not_found_404) mounted"

text \<open>The switched view after the backup endpoint has answered with its 500.\<close>

definition backup_failed :: view where
  "backup_failed = process (Failed FetchProductsFromMongoDB 1 server_error_500) switched"

text \<open>A request of a signed-in user that selects twelve categories and eleven brands.\<close>

definition twelve_categories :: request where
  "twelve_categories =
     \<lparr>user_id = Some ''u1'',
      category = Str ''c1,c2,c3,c4,c5,c6,c7,c8,c9,c10,c11,c12'',
      brand = Arr [''b1'', ''b2'', ''b3'', ''b4'', ''b5'', ''b6'', ''b7'', ''b8'', ''b9'',
                   ''b10'', ''b11''],
      sortBy = Some ''title-atoz'', page = None, pageLimit = None\<rparr>"

section \<open>Properties of the reducers and of the effects\<close>

text \<open>
  What each step does to the fields of the view. The equation of \<open>settle\<close> is
  recursive, so it is unfolded by hand where needed and kept out of the simplifier.
\<close>

declare settle.simps [simp del]

lemma dispatch_thunk_view [simp]:
  "fallbackMode (dispatch_thunk t f so v) = fallbackMode v"
  "filters (dispatch_thunk t f so v) = filters v"
  "sort_value (dispatch_thunk t f so v) = sort_value v"
  "toasts (dispatch_thunk t f so v) = toasts v"
  "dispatched (dispatch_thunk t f so v) = dispatched v @ [(t, f, so)]"
  by (simp_all add: dispatch_thunk_def)

lemma dispatch_thunk_store [simp]:
  "productList (shopProducts (dispatch_thunk t f so v)) = productList (shopProducts v)"
  "isLoading (shopProducts (dispatch_thunk t f so v))"
  "error (shopProducts (dispatch_thunk t f so v)) = None"
  "authError (shopProducts (dispatch_thunk t f so v)) =
     (if t = FetchAllFilteredProducts then None else authError (shopProducts v))"
  "firebaseError (shopProducts (dispatch_thunk t f so v)) =
     (if t = FetchAllFilteredProducts then None else firebaseError (shopProducts v))"
  by (cases t; simp add: dispatch_thunk_def fetchAllFilteredProducts_pending_def
        fetchProductsFromMongoDB_pending_def)+

lemma fetchProducts_view [simp]:
  "fallbackMode (fetchProducts snap v) = fallbackMode v"
  "filters (fetchProducts snap v) = filters v"
  "sort_value (fetchProducts snap v) = sort_value v"
  "toasts (fetchProducts snap v) = toasts v"
  by (simp_all add: fetchProducts_def split: option.splits)

lemma fetchProducts_store [simp]:
  "productList (shopProducts (fetchProducts snap v)) = productList (shopProducts v)"
  "authError (shopProducts v) = None \<Longrightarrow> authError (shopProducts (fetchProducts snap v)) = None"
  "firebaseError (shopProducts v) = None \<Longrightarrow>
     firebaseError (shopProducts (fetchProducts snap v)) = None"
  "error (shopProducts v) = None \<Longrightarrow> error (shopProducts (fetchProducts snap v)) = None"
  by (simp_all add: fetchProducts_def split: option.splits)

lemma fetchProducts_firebaseError:
  "firebaseError (shopProducts (fetchProducts snap v)) = Some y \<Longrightarrow>
     firebaseError (shopProducts v) = Some y"
  by (auto simp add: fetchProducts_def split: option.splits if_splits)

lemma authError_effect_view [simp]:
  "fallbackMode (authError_effect snap v) = fallbackMode v"
  "filters (authError_effect snap v) = filters v"
  "sort_value (authError_effect snap v) = sort_value v"
  "dispatched (authError_effect snap v) = dispatched v"
  "productList (shopProducts (authError_effect snap v)) = productList (shopProducts v)"
  by (simp_all add: authError_effect_def clearProductErrors_def split: option.splits)

lemma authError_effect_clears [simp]:
  "authError (shopProducts (authError_effect snap snap)) = None"
  by (simp add: authError_effect_def clearProductErrors_def split: option.splits)

lemma authError_effect_idle [simp]:
  "authError (shopProducts snap) = None \<Longrightarrow> authError_effect snap v = v"
  by (simp add: authError_effect_def)

lemma authError_effect_firebaseError:
  "firebaseError (shopProducts (authError_effect snap v)) = Some y \<Longrightarrow>
     firebaseError (shopProducts v) = Some y"
  by (simp add: authError_effect_def clearProductErrors_def split: option.splits)

lemma authError_effect_error [simp]:
  "error (shopProducts v) = None \<Longrightarrow> error (shopProducts (authError_effect snap v)) = None"
  by (simp add: authError_effect_def clearProductErrors_def split: option.splits)

lemma firebaseError_effect_view [simp]:
  "shopProducts (firebaseError_effect snap v) = shopProducts v"
  "filters (firebaseError_effect snap v) = filters v"
  "sort_value (firebaseError_effect snap v) = sort_value v"
  "dispatched (firebaseError_effect snap v) = dispatched v"
  "fallbackMode (firebaseError_effect snap v) =
     (fallbackMode v \<or> (firebaseError (shopProducts snap) \<noteq> None \<and> \<not> fallbackMode snap))"
  by (auto simp add: firebaseError_effect_def)

lemma firebaseError_effect_idle [simp]:
  "firebaseError (shopProducts snap) = None \<or> fallbackMode snap \<Longrightarrow>
     firebaseError_effect snap v = v"
  by (auto simp add: firebaseError_effect_def)

lemma run_effects_view [simp]:
  "filters (run_effects prev snap) = filters snap"
  "sort_value (run_effects prev snap) = sort_value snap"
  "productList (shopProducts (run_effects prev snap)) = productList (shopProducts snap)"
  "fallbackMode (run_effects prev snap) =
     (fallbackMode snap \<or> firebaseError (shopProducts snap) \<noteq> None)"
  "authError (shopProducts (run_effects prev snap)) = None"
  by (auto simp add: run_effects_def fetch_effect_def)

lemma run_effects_firebaseError:
  "firebaseError (shopProducts (run_effects prev snap)) = Some y \<Longrightarrow>
     firebaseError (shopProducts snap) = Some y"
  by (auto simp add: run_effects_def fetch_effect_def
      dest!: fetchProducts_firebaseError authError_effect_firebaseError split: if_splits)

lemma run_effects_error [simp]:
  "error (shopProducts snap) = None \<Longrightarrow> error (shopProducts (run_effects prev snap)) = None"
  by (simp add: run_effects_def fetch_effect_def)

lemma error_fetchProducts:
  "error (shopProducts (fetchProducts snap v)) = None
   \<or> error (shopProducts (fetchProducts snap v)) = error (shopProducts v)"
  by (auto simp add: fetchProducts_def split: option.splits)

lemma error_run_effects:
  "error (shopProducts (run_effects prev snap)) = None
   \<or> (authError (shopProducts snap) = None
      \<and> error (shopProducts (run_effects prev snap)) = error (shopProducts snap))"
  by (cases "authError (shopProducts snap)")
     (auto simp add: run_effects_def fetch_effect_def fetchProducts_def authError_effect_def
        clearProductErrors_def split: option.splits)

lemma toasts_run_effects:
  "toasts (run_effects prev snap) =
     toasts snap
     @ (case authError (shopProducts snap) of
          None \<Rightarrow> []
        | Some p \<Rightarrow> [AuthenticationRequired
                       (or_default (Some (pmessage p)) ''Please log in to view products'')])
     @ (if firebaseError (shopProducts snap) \<noteq> None \<and> \<not> fallbackMode snap
        then [UsingBackupDatabase] else [])"
  by (simp add: run_effects_def fetch_effect_def firebaseError_effect_def authError_effect_def
      split: option.splits)

subsection \<open>The effects come to rest\<close>

text \<open>
  One pass of the effects clears \<^verbatim>\<open>authError\<close> and, where a \<^verbatim>\<open>firebaseError\<close> is
  held in primary mode, sets \<^verbatim>\<open>fallbackMode\<close>; the change of mode makes the fetch effect
  run once more in a second pass, and nothing is due after that. So \<open>settle\<close> has a
  closed form, and every view it returns is at rest.
\<close>

lemma settle_idle: "\<not> effects_due prev snap \<Longrightarrow> settle prev snap = snap"
  by (simp add: settle.simps)

lemma settle_step:
  "effects_due prev snap \<Longrightarrow> settle prev snap = settle snap (run_effects prev snap)"
  by (subst settle.simps) simp

lemma settle_productList [simp]:
  "productList (shopProducts (settle prev snap)) = productList (shopProducts snap)"
proof (induction prev snap rule: settle.induct)
  case (1 prev snap)
  then show ?case
    by (cases "effects_due prev snap") (simp_all add: settle_idle settle_step)
qed

lemma settle_error_None:
  "error (shopProducts snap) = None \<Longrightarrow> error (shopProducts (settle prev snap)) = None"
proof (induction prev snap rule: settle.induct)
  case (1 prev snap)
  then show ?case
    by (cases "effects_due prev snap") (simp_all add: settle_idle settle_step)
qed

lemma at_rest_iff:
  "at_rest v \<longleftrightarrow>
     authError (shopProducts v) = None \<and> (firebaseError (shopProducts v) = None \<or> fallbackMode v)"
  by (auto simp add: at_rest_def effects_due_def deps_changed_def)

lemma effects_due_after_pass:
  "effects_due snap (run_effects prev snap) \<longleftrightarrow>
     firebaseError (shopProducts snap) \<noteq> None \<and> \<not> fallbackMode snap"
  using run_effects_firebaseError [of prev snap]
  by (auto simp add: effects_due_def deps_changed_def)

lemma run_effects_second:
  assumes "firebaseError (shopProducts snap) \<noteq> None" "\<not> fallbackMode snap"
  shows "run_effects snap (run_effects prev snap) =
           fetchProducts (run_effects prev snap) (run_effects prev snap)"
  using assms by (simp add: run_effects_def [of snap] fetch_effect_def deps_changed_def)

lemma settle_closed:
  "settle prev snap =
     (if effects_due prev snap then
        (let v1 = run_effects prev snap
         in if firebaseError (shopProducts snap) \<noteq> None \<and> \<not> fallbackMode snap
            then fetchProducts v1 v1 else v1)
      else snap)"
proof (cases "effects_due prev snap")
  case False
  then show ?thesis by (simp add: settle_idle)
next
  case True
  let ?v1 = "run_effects prev snap"
  show ?thesis
  proof (cases "firebaseError (shopProducts snap) \<noteq> None \<and> \<not> fallbackMode snap")
    case False
    then have "\<not> effects_due snap ?v1"
      by (simp add: effects_due_after_pass)
    then have "settle snap ?v1 = ?v1"
      by (rule settle_idle)
    with True False show ?thesis
      by (auto simp add: settle_step Let_def)
  next
    case B: True
    let ?v2 = "fetchProducts ?v1 ?v1"
    from B have due1: "effects_due snap ?v1"
      by (simp add: effects_due_after_pass)
    from B have v2: "run_effects snap ?v1 = ?v2"
      by (simp add: run_effects_second)
    have "\<not> effects_due ?v1 (run_effects snap ?v1)"
      using B by (simp add: effects_due_after_pass)
    then have "settle ?v1 (run_effects snap ?v1) = run_effects snap ?v1"
      by (rule settle_idle)
    with True due1 v2 B show ?thesis
      by (auto simp add: settle_step Let_def)
  qed
qed

lemma settle_at_rest: "at_rest (settle prev snap)"
proof (induction prev snap rule: settle.induct)
  case (1 prev snap)
  show ?case
  proof (cases "effects_due prev snap")
    case True
    with 1 show ?thesis by (simp add: settle_step)
  next
    case False
    then show ?thesis
      by (auto simp add: settle_idle at_rest_def effects_due_def deps_changed_def)
  qed
qed

lemma toasts_settle:
  "toasts (settle prev snap) =
     toasts snap
     @ (case authError (shopProducts snap) of
          None \<Rightarrow> []
        | Some p \<Rightarrow> [AuthenticationRequired
                       (or_default (Some (pmessage p)) ''Please log in to view products'')])
     @ (if firebaseError (shopProducts snap) \<noteq> None \<and> \<not> fallbackMode snap
        then [UsingBackupDatabase] else [])"
  by (auto simp add: settle_closed Let_def toasts_run_effects effects_due_def
      split: option.splits)

lemma fallbackMode_settle:
  "fallbackMode (settle prev snap) =
     (fallbackMode snap \<or> firebaseError (shopProducts snap) \<noteq> None)"
  by (auto simp add: settle_closed Let_def effects_due_def)

lemma error_settle:
  "error (shopProducts (settle prev snap)) = None
   \<or> (authError (shopProducts snap) = None
      \<and> error (shopProducts (settle prev snap)) = error (shopProducts snap))"
  using error_run_effects [of prev snap]
    error_fetchProducts [of "run_effects prev snap" "run_effects prev snap"]
  by (auto simp add: settle_closed Let_def effects_due_def)

subsection \<open>Events\<close>

lemma process_at_rest: "at_rest (process e v)"
  by (simp add: process_def settle_at_rest)

lemma run_append: "run (es @ fs) v = run fs (run es v)"
  by (induction es arbitrary: v) simp_all

lemma handle_keeps_mode:
  "e \<noteq> RetryWithFirebase \<Longrightarrow> fallbackMode (handle e v) = fallbackMode v"
  by (cases "(e, v)" rule: handle.cases) simp_all

lemma handle_keeps_toasts: "toasts (handle e v) = toasts v"
  by (cases "(e, v)" rule: handle.cases) (simp_all add: handleRetryWithFirebase_def)

lemma fallback_step:
  assumes "fallbackMode v" "e \<noteq> RetryWithFirebase"
  shows "fallbackMode (process e v)" "switched_count (process e v) = switched_count v"
  using assms
  by (simp_all add: process_def fallbackMode_settle toasts_settle handle_keeps_mode
      handle_keeps_toasts switched_count_def split: option.splits)

lemma fallback_run:
  "fallbackMode v \<Longrightarrow> RetryWithFirebase \<notin> set es \<Longrightarrow>
     fallbackMode (run es v) \<and> switched_count (run es v) = switched_count v"
proof (induction es arbitrary: v)
  case Nil
  then show ?case by simp
next
  case (Cons e es)
  from Cons.prems have "e \<noteq> RetryWithFirebase"
    by auto
  with Cons.prems have "fallbackMode (process e v)"
      "switched_count (process e v) = switched_count v"
    by (simp_all add: fallback_step)
  with Cons show ?case by simp
qed

lemma handleRetryWithFirebase_fields:
  "\<not> fallbackMode (handleRetryWithFirebase v)"
  "error (shopProducts (handleRetryWithFirebase v)) = None"
  "firebaseError (shopProducts (handleRetryWithFirebase v)) = None"
  "authError (shopProducts (handleRetryWithFirebase v)) = None"
  "filters (handleRetryWithFirebase v) = filters v"
  "sort_value (handleRetryWithFirebase v) = sort_value v"
  by (simp_all add: handleRetryWithFirebase_def clearProductErrors_def)

lemma handleRetryWithFirebase_dispatched:
  "filters v = Some f \<Longrightarrow> sort_value v = Some so \<Longrightarrow>
     dispatched (handleRetryWithFirebase v) =
       dispatched v @ [(if fallbackMode v then FetchProductsFromMongoDB
                        else FetchAllFilteredProducts, f, so)]"
  by (simp add: handleRetryWithFirebase_def fetchProducts_def)

lemma process_RetryWithFirebase:
  "process RetryWithFirebase v =
     (if fallbackMode v
      then fetchProducts (handleRetryWithFirebase v) (handleRetryWithFirebase v)
      else handleRetryWithFirebase v)"
proof -
  let ?h = "handleRetryWithFirebase v"
  have due: "effects_due v ?h \<longleftrightarrow> fallbackMode v"
    by (simp add: effects_due_def deps_changed_def handleRetryWithFirebase_fields)
  have run: "run_effects v ?h = (if fallbackMode v then fetchProducts ?h ?h else ?h)"
    by (simp add: run_effects_def fetch_effect_def deps_changed_def
        handleRetryWithFirebase_fields)
  show ?thesis
    by (simp add: process_def settle_closed due run handleRetryWithFirebase_fields)
qed

lemma fallbackMode_process:
  "e \<noteq> RetryWithFirebase \<Longrightarrow>
     fallbackMode (process e v)
       = (fallbackMode v \<or> firebaseError (shopProducts (handle e v)) \<noteq> None)"
  by (simp add: process_def fallbackMode_settle handle_keeps_mode)

lemma category_of_ptype:
  "category_of p = Some NotFound \<longleftrightarrow> ptype p = ''NOT_FOUND''"
  "category_of p = Some Unauthorized \<longleftrightarrow> ptype p = ''AUTH_ERROR''"
  by (simp_all add: category_of_def)

lemma source_level_simps [simp]:
  "\<not> source_level None"
  "source_level (Some p) \<longleftrightarrow> ptype p = ''AUTH_ERROR'' \<or> ptype p = ''NOT_FOUND''"
  by (auto simp add: source_level_def category_of_def)

lemma view_invariant_settle:
  assumes "\<not> fallbackMode snap \<Longrightarrow> firebaseError (shopProducts snap) = None \<Longrightarrow>
             authError (shopProducts snap) = None \<Longrightarrow> \<not> source_level (error (shopProducts snap))"
  shows "view_invariant (settle prev snap)"
proof -
  have rest: "at_rest (settle prev snap)"
    by (rule settle_at_rest)
  show ?thesis
  proof (cases "fallbackMode (settle prev snap)")
    case True
    with rest show ?thesis
      by (simp add: view_invariant_def at_rest_iff)
  next
    case False
    then have snap: "\<not> fallbackMode snap" "firebaseError (shopProducts snap) = None"
      by (simp_all add: fallbackMode_settle)
    from error_settle [of prev snap] assms snap
    have "\<not> source_level (error (shopProducts (settle prev snap)))"
      by auto
    with rest False show ?thesis
      by (simp add: view_invariant_def at_rest_iff)
  qed
qed

lemma view_invariant_process:
  assumes "view_invariant v"
  shows "view_invariant (process e v)"
  unfolding process_def
proof (rule view_invariant_settle)
  assume h: "\<not> fallbackMode (handle e v)" "firebaseError (shopProducts (handle e v)) = None"
    "authError (shopProducts (handle e v)) = None"
  show "\<not> source_level (error (shopProducts (handle e v)))"
  proof (cases e)
    case (SetSort x)
    with assms h show ?thesis by (auto simp add: view_invariant_def)
  next
    case TryAgain
    with assms h error_fetchProducts [of v v] show ?thesis
      by (auto simp add: view_invariant_def)
  next
    case (Succeeded t k d)
    then show ?thesis
      by (cases t)
         (simp_all add: fetchAllFilteredProducts_fulfilled_def
            fetchProductsFromMongoDB_fulfilled_def)
  next
    case (Failed t k x)
    show ?thesis
    proof (cases t)
      case FetchAllFilteredProducts
      with Failed assms h show ?thesis
        by (cases "rejected_payload (fetchAllFilteredProducts_catch x)")
           (auto simp add: fetchAllFilteredProducts_rejected_def view_invariant_def Let_def
              split: if_splits)
    next
      case FetchProductsFromMongoDB
      with Failed show ?thesis
        by (simp add: fetchProductsFromMongoDB_rejected_def fetchProductsFromMongoDB_catch_def)
    qed
  next
    case RetryWithFirebase
    then show ?thesis
      by (simp add: handleRetryWithFirebase_fields)
  next
    case ClearProductErrors
    then show ?thesis
      by (simp add: clearProductErrors_def)
  qed
qed

lemma view_invariant_run: "view_invariant v \<Longrightarrow> view_invariant (run es v)"
  by (induction es arbitrary: v) (simp_all add: view_invariant_process)

lemma view_invariant_mounted_view: "view_invariant (mounted_view stored)"
  unfolding mounted_view_def
  by (rule view_invariant_settle) (simp add: initial_view_def initialState_def fetchProducts_def)

subsection \<open>The sample inputs, evaluated\<close>

lemmas eval_defs =
  process_def settle_closed effects_due_def deps_changed_def fetchProducts_def run_effects_def
  fetch_effect_def dispatch_thunk_def fetchAllFilteredProducts_pending_def
  fetchProductsFromMongoDB_pending_def fetchAllFilteredProducts_rejected_def
  fetchProductsFromMongoDB_rejected_def fetchAllFilteredProducts_fulfilled_def
  fetchProductsFromMongoDB_fulfilled_def rejected_payload_def clearProductErrors_def
  firebaseError_effect_def authError_effect_def handleRetryWithFirebase_def

lemma catch_samples:
  "fetchAllFilteredProducts_catch unauthorized_401 =
     Inr \<lparr>ptype = ''AUTH_ERROR'', pmessage = ''Authentication required to access products'',
          pcode = ''UNAUTHORIZED''\<rparr>"
  "fetchAllFilteredProducts_catch not_found_404 =
     Inr \<lparr>ptype = ''NOT_FOUND'', pmessage = ''Products not found'',
          pcode = ''PRODUCTS_NOT_FOUND''\<rparr>"
  "fetchAllFilteredProducts_catch server_error_500 =
     Inr \<lparr>ptype = ''SERVER_ERROR'', pmessage = ''Server error while fetching products'',
          pcode = ''SERVER_ERROR''\<rparr>"
  "fetchAllFilteredProducts_catch timed_out =
     Inr \<lparr>ptype = ''NETWORK_ERROR'', pmessage = ''Request timeout. Please check your connection.'',
          pcode = ''TIMEOUT''\<rparr>"
  "fetchProductsFromMongoDB_catch server_error_500 =
     \<lparr>ptype = ''DATABASE_ERROR'', pmessage = ''Some error occured'', pcode = ''DATABASE_ERROR''\<rparr>"
  by (simp_all add: fetchAllFilteredProducts_catch_def fetchProductsFromMongoDB_catch_def
      unauthorized_401_def not_found_404_def server_error_500_def timed_out_def
      read_field_def or_default_def)

lemma mounted_eq:
  "mounted =
     \<lparr>shopProducts = initialState\<lparr>isLoading := True\<rparr>, fallbackMode = False, filters = Some [],
      sort_value = Some ''price-lowtohigh'', toasts = [],
      dispatched = [(FetchAllFilteredProducts, [], ''price-lowtohigh'')]\<rparr>"
  by (simp add: mounted_def mounted_view_def initial_view_def initialState_def settle_closed
      effects_due_def deps_changed_def fetchProducts_def run_effects_def fetch_effect_def
      dispatch_thunk_def fetchAllFilteredProducts_pending_def)

lemma switched_eq:
  "switched =
     \<lparr>shopProducts =
        \<lparr>isLoading = True, productList = [], productDetails = None, error = None,
         firebaseError = Some \<lparr>ptype = ''NOT_FOUND'', pmessage = ''Products not found'',
                               pcode = ''PRODUCTS_NOT_FOUND''\<rparr>,
         authError = None\<rparr>,
      fallbackMode = True, filters = Some [], sort_value = Some ''price-lowtohigh'',
      toasts = [UsingBackupDatabase],
      dispatched = [(FetchAllFilteredProducts, [], ''price-lowtohigh''),
                    (FetchProductsFromMongoDB, [], ''price-lowtohigh'')]\<rparr>"
  by (simp add: switched_def mounted_eq initialState_def catch_samples eval_defs Let_def)

lemma backup_failed_eq:
  "backup_failed =
     \<lparr>shopProducts =
        \<lparr>isLoading = False, productList = [], productDetails = None,
         error = Some \<lparr>ptype = ''DATABASE_ERROR'', pmessage = ''Some error occured'',
                       pcode = ''DATABASE_ERROR''\<rparr>,
         firebaseError = Some \<lparr>ptype = ''NOT_FOUND'', pmessage = ''Products not found'',
                               pcode = ''PRODUCTS_NOT_FOUND''\<rparr>,
         authError = None\<rparr>,
      fallbackMode = True, filters = Some [], sort_value = Some ''price-lowtohigh'',
      toasts = [UsingBackupDatabase],
      dispatched = [(FetchAllFilteredProducts, [], ''price-lowtohigh''),
                    (FetchProductsFromMongoDB, [], ''price-lowtohigh'')]\<rparr>"
  by (simp add: backup_failed_def switched_eq catch_samples eval_defs)

lemma run_samples:
  "run [Failed FetchAllFilteredProducts 0 not_found_404] mounted = switched"
  "run [Failed FetchAllFilteredProducts 0 not_found_404,
        Failed FetchProductsFromMongoDB 1 server_error_500] mounted = backup_failed"
  by (simp_all add: switched_def backup_failed_def)

subsection \<open>The constraints of the query\<close>

lemma sort_constraint_not_Where_in [simp]: "Where_in f vs \<noteq> sort_constraint sb"
  by (simp add: sort_constraint_def Let_def)

lemma Where_in_facet:
  "Where_in f vs \<in> set (facet_constraint g ws) \<longleftrightarrow> ws \<noteq> [] \<and> f = g \<and> vs = take 10 ws"
  by (auto simp add: facet_constraint_def)

lemma parse_twelve:
  "parse_values (Str ''c1,c2,c3,c4,c5,c6,c7,c8,c9,c10,c11,c12'') =
     [''c1'', ''c2'', ''c3'', ''c4'', ''c5'', ''c6'', ''c7'', ''c8'', ''c9'', ''c10'',
      ''c11'', ''c12'']"
  by (simp add: parse_values_def)

text \<open>
  What the handler is written to do: the \<^verbatim>\<open>where ... in\<close> constraints it pushes hold the
  first ten values of their facet, and with a module that has the six functions the
  query with these constraints is run and answered with a 200.
\<close>

lemma Where_in_query_constraints:
  "Where_in f vs \<in> set (query_constraints req) \<longleftrightarrow>
     (f = ''category'' \<and> parse_values (category req) \<noteq> []
        \<and> vs = take 10 (parse_values (category req)))
     \<or> (f = ''brand'' \<and> parse_values (brand req) \<noteq> []
        \<and> vs = take 10 (parse_values (brand req)))"
  by (auto simp add: query_constraints_def Let_def Where_in_facet)

lemma handler_with_client_functions:
  assumes "verifyAuthentication req"
    and "has_collection m" "has_where m" "has_orderBy m" "has_limit m" "has_query m"
    and "getDocs m = Some documents_of" "documents_of (query_constraints req) = Inr docs"
  shows "getFilteredProductsFromFirebase m req = Status200 (query_constraints req) docs"
  using assms by (simp add: getFilteredProductsFromFirebase_def Let_def)

lemma handler_without_collection:
  "\<not> has_collection m \<Longrightarrow>
     getFilteredProductsFromFirebase m req
       = (if verifyAuthentication req then Status500 else Status401)"
  by (simp add: getFilteredProductsFromFirebase_def Let_def)

section \<open>The claims\<close>

subsection \<open>C1\<close>

text \<open>
  Claim C1, as the code has it. A view at rest in primary mode takes a failure of the
  primary fetch whose payload is NotFound or Unauthorized. The mode afterwards is the
  backup mode exactly when the payload is NotFound, and exactly one toast is shown: the
  "Using Backup Database" toast for NotFound, the "Authentication Required" toast for
  Unauthorized. After the switch no sequence of events without Switch to Primary shows
  the backup toast again. Filters and sort order of the view are arbitrary.
\<close>

theorem primary_failure_switches_on_not_found:
  assumes "at_rest v" and "\<not> fallbackMode v"
    and "fetchAllFilteredProducts_catch e = Inr p"
    and "category_of p = Some NotFound \<or> category_of p = Some Unauthorized"
  shows "fallbackMode (process (Failed FetchAllFilteredProducts k e) v)
           = (category_of p = Some NotFound)
       \<and> toasts (process (Failed FetchAllFilteredProducts k e) v)
           = toasts v @ [if category_of p = Some NotFound then UsingBackupDatabase
                         else AuthenticationRequired
                                (or_default (Some (pmessage p)) ''Please log in to view products'')]
       \<and> (category_of p = Some NotFound \<and> RetryWithFirebase \<notin> set es \<longrightarrow>
            switched_count (run es (process (Failed FetchAllFilteredProducts k e) v))
              = switched_count v + 1)"
proof -
  let ?v' = "process (Failed FetchAllFilteredProducts k e) v"
  from assms(1,2) have rest: "authError (shopProducts v) = None" "firebaseError (shopProducts v) = None"
    by (auto simp add: at_rest_iff)
  have mode: "fallbackMode ?v' = (category_of p = Some NotFound)"
    using assms(2-4) rest
    by (auto simp add: process_def fallbackMode_settle rejected_payload_def
        fetchAllFilteredProducts_rejected_def category_of_ptype)
  have ts: "toasts ?v' = toasts v @ [if category_of p = Some NotFound then UsingBackupDatabase
                         else AuthenticationRequired
                                (or_default (Some (pmessage p)) ''Please log in to view products'')]"
    using assms(2-4) rest
    by (auto simp add: process_def toasts_settle rejected_payload_def
        fetchAllFilteredProducts_rejected_def category_of_ptype)
  have "switched_count (run es ?v') = switched_count v + 1"
    if "category_of p = Some NotFound" "RetryWithFirebase \<notin> set es"
  proof -
    from that mode have "switched_count (run es ?v') = switched_count ?v'"
      by (simp add: fallback_run)
    with that ts show ?thesis
      by (simp add: switched_count_def)
  qed
  with mode ts show ?thesis by blast
qed

text \<open>
  The theorem at the mounted view and the 404: the switch, its one toast, and no second
  toast after a failure of the backup and a Try Again.
\<close>

theorem primary_failure_switches_on_not_found_witness:
  "at_rest mounted \<and> \<not> fallbackMode mounted
   \<and> fetchAllFilteredProducts_catch not_found_404 =
       Inr \<lparr>ptype = ''NOT_FOUND'', pmessage = ''Products not found'',
            pcode = ''PRODUCTS_NOT_FOUND''\<rparr>
   \<and> category_of \<lparr>ptype = ''NOT_FOUND'', pmessage = ''Products not found'',
            pcode = ''PRODUCTS_NOT_FOUND''\<rparr> = Some NotFound
   \<and> RetryWithFirebase \<notin> set [Failed FetchProductsFromMongoDB 1 server_error_500, TryAgain]
   \<and> fallbackMode (process (Failed FetchAllFilteredProducts 0 not_found_404) mounted)
   \<and> toasts (process (Failed FetchAllFilteredProducts 0 not_found_404) mounted)
       = [UsingBackupDatabase]
   \<and> switched_count
        (run [Failed FetchProductsFromMongoDB 1 server_error_500, TryAgain]
           (process (Failed FetchAllFilteredProducts 0 not_found_404) mounted)) = 1"
proof -
  let ?p = "\<lparr>ptype = ''NOT_FOUND'', pmessage = ''Products not found'',
            pcode = ''PRODUCTS_NOT_FOUND''\<rparr>"
  have 1: "at_rest mounted" and 2: "\<not> fallbackMode mounted"
    by (simp_all add: mounted_eq at_rest_iff initialState_def)
  have 3: "fetchAllFilteredProducts_catch not_found_404 = Inr ?p"
    by (simp add: catch_samples)
  have 4: "category_of ?p = Some NotFound \<or> category_of ?p = Some Unauthorized"
    by (simp add: category_of_def)
  have 5: "toasts mounted = []" "switched_count mounted = 0"
    by (simp_all add: mounted_eq switched_count_def)
  show ?thesis
    using primary_failure_switches_on_not_found
      [OF 1 2 3 4, of 0 "[Failed FetchProductsFromMongoDB 1 server_error_500, TryAgain]"] 1 2 3 5
    by (simp add: category_of_def)
qed

text \<open>
  Claim C1 fails for Unauthorized: after the 401 of the primary endpoint the mounted view
  is still in primary mode, and the toast shown is the "Authentication Required" one.
\<close>

theorem unauthorized_failure_keeps_primary:
  "category_of \<lparr>ptype = ''AUTH_ERROR'', pmessage = ''Authentication required to access products'',
                pcode = ''UNAUTHORIZED''\<rparr> = Some Unauthorized
   \<and> fetchAllFilteredProducts_catch unauthorized_401 =
       Inr \<lparr>ptype = ''AUTH_ERROR'', pmessage = ''Authentication required to access products'',
            pcode = ''UNAUTHORIZED''\<rparr>
   \<and> \<not> fallbackMode mounted
   \<and> \<not> fallbackMode (process (Failed FetchAllFilteredProducts 0 unauthorized_401) mounted)
   \<and> toasts (process (Failed FetchAllFilteredProducts 0 unauthorized_401) mounted)
       = [AuthenticationRequired ''Authentication required to access products'']"
  by (simp add: category_of_def catch_samples mounted_eq initialState_def eval_defs Let_def
      or_default_def)

subsection \<open>C2\<close>

text \<open>
  Claim C2, as the code has it. The reducers apply every result in the order of arrival:
  after any events, a fulfilled action leaves its own records as the product list and no
  error, whichever request it answers. The last result to arrive wins.
\<close>

theorem last_arrival_wins:
  "productList (shopProducts (run (es @ [Succeeded t k d]) v))
     = (case d of None \<Rightarrow> [] | Some ps \<Rightarrow> ps)
   \<and> error (shopProducts (run (es @ [Succeeded t k d]) v)) = None"
proof -
  let ?w = "run es v"
  have "error (shopProducts (handle (Succeeded t k d) ?w)) = None"
    by (cases t)
       (simp_all add: fetchAllFilteredProducts_fulfilled_def fetchProductsFromMongoDB_fulfilled_def)
  then have "error (shopProducts (process (Succeeded t k d) ?w)) = None"
    unfolding process_def by (rule settle_error_None)
  moreover have "productList (shopProducts (process (Succeeded t k d) ?w))
      = (case d of None \<Rightarrow> [] | Some ps \<Rightarrow> ps)"
    by (cases t)
       (simp_all add: process_def fetchAllFilteredProducts_fulfilled_def
          fetchProductsFromMongoDB_fulfilled_def)
  ultimately show ?thesis
    by (simp add: run_append)
qed

text \<open>
  The theorem at the run below: two requests, and the result of the first arriving last.
\<close>

theorem last_arrival_wins_witness:
  "productList (shopProducts
        (run ([SetSort ''price-hightolow'',
              Succeeded FetchAllFilteredProducts 1 (Some [''p2'', ''p1''])]
              @ [Succeeded FetchAllFilteredProducts 0 (Some [''p1'', ''p2''])]) mounted))
       = [''p1'', ''p2'']"
  using last_arrival_wins [of "[SetSort ''price-hightolow'',
              Succeeded FetchAllFilteredProducts 1 (Some [''p2'', ''p1''])]"
      FetchAllFilteredProducts 0 "Some [''p1'', ''p2'']" mounted]
  by simp

text \<open>
  Claim C2 fails. The mount has issued request 0 (price low to high); picking the other
  sort order issues request 1 before request 0 has resolved. The result of request 1
  arrives and is applied; the result of request 0 arrives after it and replaces it, so
  the list shown is that of the older request.
\<close>

theorem stale_result_overwrites:
  "dispatched (run [SetSort ''price-hightolow''] mounted) =
     [(FetchAllFilteredProducts, [], ''price-lowtohigh''),
      (FetchAllFilteredProducts, [], ''price-hightolow'')]
   \<and> productList (shopProducts
        (run [SetSort ''price-hightolow'',
              Succeeded FetchAllFilteredProducts 1 (Some [''p2'', ''p1''])] mounted))
       = [''p2'', ''p1'']
   \<and> productList (shopProducts
        (run [SetSort ''price-hightolow'',
              Succeeded FetchAllFilteredProducts 1 (Some [''p2'', ''p1'']),
              Succeeded FetchAllFilteredProducts 0 (Some [''p1'', ''p2''])] mounted))
       = [''p1'', ''p2'']"
  by (simp add: mounted_eq initialState_def eval_defs Let_def)

subsection \<open>C3\<close>

text \<open>
  Claim C3, as the code has it. For every failure whose response body can be read, the
  \<^verbatim>\<open>catch\<close> block of the primary thunk returns exactly one payload. Its category follows
  the rules in this order: a response with status 401 is Unauthorized, 404 NotFound, 500
  ServerFault, any other response GenericApiFault; without a response the code
  \<^verbatim>\<open>ECONNABORTED\<close> is Timeout and everything else NetworkFault. Its message is the
  \<^verbatim>\<open>message\<close> field of the body (Unauthorized, GenericApiFault), the \<^verbatim>\<open>error\<close> field of
  the body (ServerFault) or the message of the caught error (NetworkFault) when that is
  a non-empty string, and a fixed string otherwise; NotFound and Timeout always carry
  their fixed string.
\<close>

theorem classifier_follows_rules:
  assumes "body_readable e"
  shows "\<exists>p. fetchAllFilteredProducts_catch e = Inr p
           \<and> category_of p = Some (rule_category e)
           \<and> pmessage p = rule_message e"
proof (cases "err_response e")
  case None
  then show ?thesis
    by (simp add: fetchAllFilteredProducts_catch_def category_of_def rule_category_def
        rule_message_def)
next
  case (Some r)
  with assms have "status r = 404 \<or> data r \<noteq> None"
    by (simp add: body_readable_def)
  with Some show ?thesis
    by (cases "data r"; cases "status r = 401"; cases "status r = 404"; cases "status r = 500")
       (simp_all add: fetchAllFilteredProducts_catch_def category_of_def rule_category_def
          rule_message_def body_field_def read_field_def)
qed

text \<open>
  The theorem at the 401 of the primary endpoint, whose message comes from the body.
\<close>

theorem classifier_follows_rules_witness:
  "body_readable unauthorized_401
   \<and> fetchAllFilteredProducts_catch unauthorized_401 =
       Inr \<lparr>ptype = ''AUTH_ERROR'', pmessage = ''Authentication required to access products'',
            pcode = ''UNAUTHORIZED''\<rparr>
   \<and> rule_category unauthorized_401 = Unauthorized
   \<and> rule_message unauthorized_401 = ''Authentication required to access products''"
proof -
  have 1: "body_readable unauthorized_401"
    by (simp add: body_readable_def unauthorized_401_def)
  show ?thesis
    using classifier_follows_rules [OF 1] 1
    by (auto simp add: catch_samples category_of_def)
qed

text \<open>
  Claim C3 fails in three places. The body of this 404 carries a message, and the
  payload carries the fixed string instead. A failure with a response is classified by
  its status before the code \<^verbatim>\<open>ECONNABORTED\<close> is looked at. And where the body of a
  500 is \<^verbatim>\<open>null\<close>, reading its field throws inside the \<^verbatim>\<open>catch\<close> block.
\<close>

theorem classifier_departs_from_rules:
  "body_field not_found_404 data_message = Some ''No such collection''
   \<and> fetchAllFilteredProducts_catch not_found_404 =
       Inr \<lparr>ptype = ''NOT_FOUND'', pmessage = ''Products not found'',
            pcode = ''PRODUCTS_NOT_FOUND''\<rparr>
   \<and> err_code stale_code_401 = Some ''ECONNABORTED''
   \<and> fetchAllFilteredProducts_catch stale_code_401 =
       Inr \<lparr>ptype = ''AUTH_ERROR'', pmessage = ''Authentication required. Please log in.'',
            pcode = ''UNAUTHORIZED''\<rparr>
   \<and> fetchAllFilteredProducts_catch null_body_500 = Inl TypeError"
  by (simp add: catch_samples)
     (simp add: body_field_def not_found_404_def stale_code_401_def null_body_500_def
        fetchAllFilteredProducts_catch_def read_field_def or_default_def)

subsection \<open>C4\<close>

text \<open>
  Claim C4. A view at rest in primary mode whose fetch fails with a ServerFault, Timeout,
  NetworkFault or GenericApiFault payload stays in primary mode, whatever the filters and
  the sort order of the request; the payload is stored as the error and no toast is shown.
\<close>

theorem other_primary_failures_keep_primary:
  assumes "at_rest v" and "\<not> fallbackMode v"
    and "fetchAllFilteredProducts_catch e = Inr p"
    and "category_of p \<in> {Some ServerFault, Some Timeout, Some NetworkFault, Some GenericApiFault}"
  shows "\<not> fallbackMode (process (Failed FetchAllFilteredProducts k e) v)
       \<and> error (shopProducts (process (Failed FetchAllFilteredProducts k e) v)) = Some p
       \<and> toasts (process (Failed FetchAllFilteredProducts k e) v) = toasts v"
proof -
  from assms(1,2) have rest: "authError (shopProducts v) = None" "firebaseError (shopProducts v) = None"
    by (auto simp add: at_rest_iff)
  from assms(4) have ty: "ptype p \<noteq> ''AUTH_ERROR''" "ptype p \<noteq> ''NOT_FOUND''"
    by (auto simp add: category_of_def split: if_splits)
  let ?h = "handle (Failed FetchAllFilteredProducts k e) v"
  have h: "?h = v\<lparr>shopProducts := (shopProducts v)\<lparr>isLoading := False, productList := [], error := Some p\<rparr>\<rparr>"
    using assms(3) ty by (simp add: rejected_payload_def fetchAllFilteredProducts_rejected_def)
  have "\<not> effects_due v ?h"
    unfolding h using rest by (simp add: effects_due_def deps_changed_def)
  then have "process (Failed FetchAllFilteredProducts k e) v = ?h"
    unfolding process_def by (rule settle_idle)
  then show ?thesis
    unfolding h using assms(2) by simp
qed

text \<open>
  The theorem at the mounted view and a 500 of the primary endpoint.
\<close>

theorem other_primary_failures_keep_primary_witness:
  "at_rest mounted \<and> \<not> fallbackMode mounted
   \<and> fetchAllFilteredProducts_catch server_error_500 =
       Inr \<lparr>ptype = ''SERVER_ERROR'', pmessage = ''Server error while fetching products'',
            pcode = ''SERVER_ERROR''\<rparr>
   \<and> category_of \<lparr>ptype = ''SERVER_ERROR'', pmessage = ''Server error while fetching products'',
            pcode = ''SERVER_ERROR''\<rparr> = Some ServerFault
   \<and> \<not> fallbackMode (process (Failed FetchAllFilteredProducts 0 server_error_500) mounted)
   \<and> error (shopProducts (process (Failed FetchAllFilteredProducts 0 server_error_500) mounted))
       = Some \<lparr>ptype = ''SERVER_ERROR'', pmessage = ''Server error while fetching products'',
            pcode = ''SERVER_ERROR''\<rparr>
   \<and> toasts (process (Failed FetchAllFilteredProducts 0 server_error_500) mounted) = []"
proof -
  let ?p = "\<lparr>ptype = ''SERVER_ERROR'', pmessage = ''Server error while fetching products'',
            pcode = ''SERVER_ERROR''\<rparr>"
  have 1: "at_rest mounted" and 2: "\<not> fallbackMode mounted"
    by (simp_all add: mounted_eq at_rest_iff initialState_def)
  have 3: "fetchAllFilteredProducts_catch server_error_500 = Inr ?p"
    by (simp add: catch_samples)
  have 4: "category_of ?p \<in> {Some ServerFault, Some Timeout, Some NetworkFault, Some GenericApiFault}"
    by (simp add: category_of_def)
  have 5: "toasts mounted = []"
    by (simp add: mounted_eq)
  show ?thesis
    using other_primary_failures_keep_primary [OF 1 2 3 4, of 0] 1 2 3 5
    by (simp add: category_of_def)
qed

subsection \<open>C5\<close>

text \<open>
  Claim C5, as the code has it. In the initial view, and in every view reached from the
  mounted view by whole events, no \<^verbatim>\<open>authError\<close> is held, and in primary mode no
  \<^verbatim>\<open>firebaseError\<close> is held and the \<^verbatim>\<open>error\<close> shown is not an Unauthorized or NotFound
  one. (In backup mode \<^verbatim>\<open>error\<close> and \<^verbatim>\<open>firebaseError\<close> can hold two different
  payloads.)
\<close>

theorem reachable_views_invariant:
  "view_invariant initial_view \<and> view_invariant (run es (mounted_view stored))"
proof
  show "view_invariant initial_view"
    by (simp add: view_invariant_def initial_view_def initialState_def)
  show "view_invariant (run es (mounted_view stored))"
    using view_invariant_mounted_view by (rule view_invariant_run)
qed

text \<open>
  The theorem at a run that ends in primary mode with a ServerFault shown: a switch to
  the backup, a failure there, Switch to Primary, and a 500 of the primary endpoint.
\<close>

theorem reachable_views_invariant_witness:
  "\<not> fallbackMode
       (run [Failed FetchAllFilteredProducts 0 not_found_404,
             Failed FetchProductsFromMongoDB 1 server_error_500, RetryWithFirebase,
             Failed FetchAllFilteredProducts 3 server_error_500] (mounted_view None))
   \<and> authError (shopProducts
       (run [Failed FetchAllFilteredProducts 0 not_found_404,
             Failed FetchProductsFromMongoDB 1 server_error_500, RetryWithFirebase,
             Failed FetchAllFilteredProducts 3 server_error_500] (mounted_view None))) = None
   \<and> firebaseError (shopProducts
       (run [Failed FetchAllFilteredProducts 0 not_found_404,
             Failed FetchProductsFromMongoDB 1 server_error_500, RetryWithFirebase,
             Failed FetchAllFilteredProducts 3 server_error_500] (mounted_view None))) = None
   \<and> \<not> source_level (error (shopProducts
       (run [Failed FetchAllFilteredProducts 0 not_found_404,
             Failed FetchProductsFromMongoDB 1 server_error_500, RetryWithFirebase,
             Failed FetchAllFilteredProducts 3 server_error_500] (mounted_view None))))"
proof -
  let ?es = "[Failed FetchAllFilteredProducts 0 not_found_404,
             Failed FetchProductsFromMongoDB 1 server_error_500, RetryWithFirebase,
             Failed FetchAllFilteredProducts 3 server_error_500]"
  have eq: "run ?es (mounted_view None) =
          process (Failed FetchAllFilteredProducts 3 server_error_500)
            (process RetryWithFirebase backup_failed)"
    by (simp add: mounted_def switched_def backup_failed_def)
  have "\<not> fallbackMode (process RetryWithFirebase backup_failed)"
      "firebaseError (shopProducts (process RetryWithFirebase backup_failed)) = None"
    by (simp_all add: process_RetryWithFirebase handleRetryWithFirebase_fields)
  then have "\<not> fallbackMode (process (Failed FetchAllFilteredProducts 3 server_error_500)
            (process RetryWithFirebase backup_failed))"
    by (simp add: fallbackMode_process fetchAllFilteredProducts_rejected_def catch_samples
        rejected_payload_def)
  then have "\<not> fallbackMode (run ?es (mounted_view None))"
    unfolding eq .
  with reachable_views_invariant [of ?es None] show ?thesis
    by (auto simp add: view_invariant_def)
qed

text \<open>
  Claim C5 fails for "at most one error": after the switch on a 404 and a failure of the
  backup fetch the store holds two different payloads at once. So it does where a second
  primary fetch, sent by Try Again before the 404 arrived, fails with a 500 after the
  switch: a ServerFault and a NotFound are held together.
\<close>

theorem two_errors_held_at_once:
  "error (shopProducts
     (run [Failed FetchAllFilteredProducts 0 not_found_404,
           Failed FetchProductsFromMongoDB 1 server_error_500] mounted))
     = Some \<lparr>ptype = ''DATABASE_ERROR'', pmessage = ''Some error occured'',
             pcode = ''DATABASE_ERROR''\<rparr>
   \<and> firebaseError (shopProducts
     (run [Failed FetchAllFilteredProducts 0 not_found_404,
           Failed FetchProductsFromMongoDB 1 server_error_500] mounted))
     = Some \<lparr>ptype = ''NOT_FOUND'', pmessage = ''Products not found'',
             pcode = ''PRODUCTS_NOT_FOUND''\<rparr>
   \<and> error (shopProducts
     (run [TryAgain, Failed FetchAllFilteredProducts 0 not_found_404,
           Failed FetchAllFilteredProducts 1 server_error_500] mounted))
     = Some \<lparr>ptype = ''SERVER_ERROR'', pmessage = ''Server error while fetching products'',
             pcode = ''SERVER_ERROR''\<rparr>
   \<and> firebaseError (shopProducts
     (run [TryAgain, Failed FetchAllFilteredProducts 0 not_found_404,
           Failed FetchAllFilteredProducts 1 server_error_500] mounted))
     = Some \<lparr>ptype = ''NOT_FOUND'', pmessage = ''Products not found'',
             pcode = ''PRODUCTS_NOT_FOUND''\<rparr>"
proof -
  have "error (shopProducts
     (run [TryAgain, Failed FetchAllFilteredProducts 0 not_found_404,
           Failed FetchAllFilteredProducts 1 server_error_500] mounted))
     = Some \<lparr>ptype = ''SERVER_ERROR'', pmessage = ''Server error while fetching products'',
             pcode = ''SERVER_ERROR''\<rparr>
   \<and> firebaseError (shopProducts
     (run [TryAgain, Failed FetchAllFilteredProducts 0 not_found_404,
           Failed FetchAllFilteredProducts 1 server_error_500] mounted))
     = Some \<lparr>ptype = ''NOT_FOUND'', pmessage = ''Products not found'',
             pcode = ''PRODUCTS_NOT_FOUND''\<rparr>"
    by (simp add: mounted_eq initialState_def catch_samples eval_defs Let_def)
  moreover have "error (shopProducts backup_failed)
     = Some \<lparr>ptype = ''DATABASE_ERROR'', pmessage = ''Some error occured'',
             pcode = ''DATABASE_ERROR''\<rparr>
   \<and> firebaseError (shopProducts backup_failed)
     = Some \<lparr>ptype = ''NOT_FOUND'', pmessage = ''Products not found'',
             pcode = ''PRODUCTS_NOT_FOUND''\<rparr>"
    by (simp add: backup_failed_eq)
  ultimately show ?thesis
    by (simp only: run_samples)
qed

subsection \<open>C6\<close>

text \<open>
  Claim C6, as the code has it. A view at rest in backup mode stays in backup mode on
  a failure of either thunk. A failure of the backup fetch stores the payload of its
  \<^verbatim>\<open>catch\<close> block as the error; that payload always has the type \<^verbatim>\<open>DATABASE_ERROR\<close>,
  which is none of the six categories, whatever the status of the response.
\<close>

theorem fallback_failure_is_database_error:
  assumes "at_rest v" and "fallbackMode v"
  shows "fallbackMode (process (Failed t k e) v)
       \<and> error (shopProducts (process (Failed FetchProductsFromMongoDB k e) v))
           = Some (fetchProductsFromMongoDB_catch e)
       \<and> ptype (fetchProductsFromMongoDB_catch e) = ''DATABASE_ERROR''
       \<and> category_of (fetchProductsFromMongoDB_catch e) = None"
proof -
  have mode: "fallbackMode (process (Failed t k e) v)"
    using assms(2) by (simp add: process_def fallbackMode_settle handle_keeps_mode)
  let ?h = "handle (Failed FetchProductsFromMongoDB k e) v"
  have "\<not> effects_due v ?h"
    using assms by (simp add: at_rest_iff effects_due_def deps_changed_def
        fetchProductsFromMongoDB_rejected_def)
  then have "process (Failed FetchProductsFromMongoDB k e) v = ?h"
    unfolding process_def by (rule settle_idle)
  then have err: "error (shopProducts (process (Failed FetchProductsFromMongoDB k e) v))
           = Some (fetchProductsFromMongoDB_catch e)"
    by (simp add: fetchProductsFromMongoDB_rejected_def)
  have "ptype (fetchProductsFromMongoDB_catch e) = ''DATABASE_ERROR''"
    by (simp add: fetchProductsFromMongoDB_catch_def)
  with mode err show ?thesis
    by (simp add: category_of_def)
qed

text \<open>
  The theorem at the switched view and the 500 of the backup endpoint.
\<close>

theorem fallback_failure_is_database_error_witness:
  "at_rest switched \<and> fallbackMode switched
   \<and> fallbackMode (process (Failed FetchProductsFromMongoDB 1 server_error_500) switched)
   \<and> error (shopProducts (process (Failed FetchProductsFromMongoDB 1 server_error_500) switched))
       = Some \<lparr>ptype = ''DATABASE_ERROR'', pmessage = ''Some error occured'',
               pcode = ''DATABASE_ERROR''\<rparr>"
proof -
  have 1: "at_rest switched" and 2: "fallbackMode switched"
    by (simp_all add: switched_eq at_rest_iff)
  show ?thesis
    using fallback_failure_is_database_error
      [OF 1 2, of FetchProductsFromMongoDB 1 server_error_500] 1 2
    by (simp add: catch_samples)
qed

text \<open>
  Claim C6 fails for the category: the 500 of the backup endpoint is stored as a
  \<^verbatim>\<open>DATABASE_ERROR\<close>, not as a ServerFault.
\<close>

theorem fallback_http_500_is_not_server_fault:
  "fallbackMode switched
   \<and> error (shopProducts (process (Failed FetchProductsFromMongoDB 1 server_error_500) switched))
       = Some \<lparr>ptype = ''DATABASE_ERROR'', pmessage = ''Some error occured'',
               pcode = ''DATABASE_ERROR''\<rparr>
   \<and> category_of \<lparr>ptype = ''DATABASE_ERROR'', pmessage = ''Some error occured'',
               pcode = ''DATABASE_ERROR''\<rparr> \<noteq> Some ServerFault"
  by (simp add: switched_eq catch_samples eval_defs category_of_def)

subsection \<open>C7\<close>

text \<open>
  Claim C7, as the code has it. After Switch to Primary, from any view, the mode is
  primary and none of the three error fields holds a payload. The handler does fetch:
  when filters and sort order are set, the view is loading afterwards, at least one more
  thunk has been dispatched, and the last one dispatched is the primary fetch with the
  filters and sort order of the view.
\<close>

theorem retry_resets_and_fetches:
  "\<not> fallbackMode (process RetryWithFirebase v)
   \<and> error (shopProducts (process RetryWithFirebase v)) = None
   \<and> firebaseError (shopProducts (process RetryWithFirebase v)) = None
   \<and> authError (shopProducts (process RetryWithFirebase v)) = None
   \<and> (filters v = Some f \<and> sort_value v = Some so \<longrightarrow>
        isLoading (shopProducts (process RetryWithFirebase v))
        \<and> length (dispatched v) < length (dispatched (process RetryWithFirebase v))
        \<and> last (dispatched (process RetryWithFirebase v)) = (FetchAllFilteredProducts, f, so))"
proof -
  note p = process_RetryWithFirebase [of v]
  have a: "\<not> fallbackMode (process RetryWithFirebase v)"
      "error (shopProducts (process RetryWithFirebase v)) = None"
      "firebaseError (shopProducts (process RetryWithFirebase v)) = None"
      "authError (shopProducts (process RetryWithFirebase v)) = None"
    by (simp_all add: p handleRetryWithFirebase_fields)
  have b: "isLoading (shopProducts (process RetryWithFirebase v))
        \<and> length (dispatched v) < length (dispatched (process RetryWithFirebase v))
        \<and> last (dispatched (process RetryWithFirebase v)) = (FetchAllFilteredProducts, f, so)"
    if "filters v = Some f" "sort_value v = Some so"
    using that
    by (simp add: p handleRetryWithFirebase_dispatched fetchProducts_def
        handleRetryWithFirebase_fields)
       (simp add: handleRetryWithFirebase_def fetchProducts_def)
  from a b show ?thesis by blast
qed

text \<open>
  The theorem at the view in backup mode that shows the failure of the backup fetch.
\<close>

theorem retry_resets_and_fetches_witness:
  "filters backup_failed = Some [] \<and> sort_value backup_failed = Some ''price-lowtohigh''
   \<and> fallbackMode backup_failed
   \<and> error (shopProducts backup_failed) \<noteq> None
   \<and> \<not> fallbackMode (process RetryWithFirebase backup_failed)
   \<and> error (shopProducts (process RetryWithFirebase backup_failed)) = None
   \<and> firebaseError (shopProducts (process RetryWithFirebase backup_failed)) = None
   \<and> authError (shopProducts (process RetryWithFirebase backup_failed)) = None
   \<and> isLoading (shopProducts (process RetryWithFirebase backup_failed))
   \<and> last (dispatched (process RetryWithFirebase backup_failed))
       = (FetchAllFilteredProducts, [], ''price-lowtohigh'')"
  using retry_resets_and_fetches [of backup_failed "[]" "''price-lowtohigh''"]
  by (simp add: backup_failed_eq)

text \<open>
  Claim C7 fails for "does not itself invoke fetch": on that view the handler dispatches
  a thunk itself, and the fetch effect that follows the change of mode a second one.
\<close>

theorem retry_dispatches_fetches:
  "dispatched backup_failed =
     [(FetchAllFilteredProducts, [], ''price-lowtohigh''),
      (FetchProductsFromMongoDB, [], ''price-lowtohigh'')]
   \<and> dispatched (handleRetryWithFirebase backup_failed) =
     [(FetchAllFilteredProducts, [], ''price-lowtohigh''),
      (FetchProductsFromMongoDB, [], ''price-lowtohigh''),
      (FetchProductsFromMongoDB, [], ''price-lowtohigh'')]
   \<and> dispatched (process RetryWithFirebase backup_failed) =
     [(FetchAllFilteredProducts, [], ''price-lowtohigh''),
      (FetchProductsFromMongoDB, [], ''price-lowtohigh''),
      (FetchProductsFromMongoDB, [], ''price-lowtohigh''),
      (FetchAllFilteredProducts, [], ''price-lowtohigh'')]"
  by (simp add: backup_failed_eq eval_defs)

subsection \<open>C8\<close>

text \<open>
  Claim C8, as the code has it. On a view at rest, a fulfilled action of either thunk
  clears \<^verbatim>\<open>error\<close>, stores the records of the response as the product list (the empty
  list when the response has none), and leaves the mode and the toasts as they are;
  \<^verbatim>\<open>firebaseError\<close> is left as it is too. A response with no records gives an empty
  list and no error.
\<close>

theorem success_stores_records:
  assumes "at_rest v"
  shows "error (shopProducts (process (Succeeded t k d) v)) = None
       \<and> productList (shopProducts (process (Succeeded t k d) v))
           = (case d of None \<Rightarrow> [] | Some ps \<Rightarrow> ps)
       \<and> fallbackMode (process (Succeeded t k d) v) = fallbackMode v
       \<and> firebaseError (shopProducts (process (Succeeded t k d) v)) = firebaseError (shopProducts v)
       \<and> authError (shopProducts (process (Succeeded t k d) v)) = None
       \<and> toasts (process (Succeeded t k d) v) = toasts v"
proof -
  let ?h = "handle (Succeeded t k d) v"
  have "\<not> effects_due v ?h"
    using assms
    by (cases t)
       (simp_all add: at_rest_iff effects_due_def deps_changed_def
          fetchAllFilteredProducts_fulfilled_def fetchProductsFromMongoDB_fulfilled_def)
  then have "process (Succeeded t k d) v = ?h"
    unfolding process_def by (rule settle_idle)
  then show ?thesis
    using assms
    by (cases t)
       (simp_all add: at_rest_iff fetchAllFilteredProducts_fulfilled_def
          fetchProductsFromMongoDB_fulfilled_def)
qed

text \<open>
  The theorem at the switched view, whose backup fetch is answered with no records.
\<close>

theorem success_stores_records_witness:
  "at_rest switched
   \<and> fallbackMode switched
   \<and> error (shopProducts (process (Succeeded FetchProductsFromMongoDB 1 (Some [])) switched))
       = None
   \<and> productList (shopProducts
        (process (Succeeded FetchProductsFromMongoDB 1 (Some [])) switched)) = []
   \<and> fallbackMode (process (Succeeded FetchProductsFromMongoDB 1 (Some [])) switched)"
proof -
  have 1: "at_rest switched"
    by (simp add: switched_eq at_rest_iff)
  show ?thesis
    using success_stores_records [OF 1, of FetchProductsFromMongoDB 1 "Some []"] 1
    by (simp add: switched_eq)
qed

text \<open>
  Claim C8 fails for "clears any held error": after that success in backup mode the
  NotFound payload that caused the switch is still held in \<^verbatim>\<open>firebaseError\<close>.
\<close>

theorem success_keeps_firebaseError:
  "firebaseError (shopProducts
     (process (Succeeded FetchProductsFromMongoDB 1 (Some [])) switched))
     = Some \<lparr>ptype = ''NOT_FOUND'', pmessage = ''Products not found'',
             pcode = ''PRODUCTS_NOT_FOUND''\<rparr>"
  by (simp add: switched_eq eval_defs)

subsection \<open>C9\<close>

text \<open>
  Claim C9. Both rejected reducers store the payload as the error and reset the product
  list to the empty list, and the list is still empty when the effects have run: a failed
  fetch of either thunk discards the products held before.
\<close>

theorem rejected_fetch_empties_product_list:
  "productList (fetchAllFilteredProducts_rejected q s) = []
   \<and> productList (fetchProductsFromMongoDB_rejected q s) = []
   \<and> error (fetchAllFilteredProducts_rejected q s) = q
   \<and> error (fetchProductsFromMongoDB_rejected q s) = q
   \<and> productList (shopProducts (process (Failed t k e) v)) = []"
  by (cases t)
     (simp_all add: process_def fetchAllFilteredProducts_rejected_def
        fetchProductsFromMongoDB_rejected_def Let_def)

text \<open>
  The theorem at a view in backup mode that holds one product when its second fetch,
  sent by Try Again, fails.
\<close>

theorem rejected_fetch_empties_product_list_witness:
  "productList (shopProducts
     (run [Succeeded FetchProductsFromMongoDB 1 (Some [''p1'']), TryAgain] switched)) = [''p1'']
   \<and> productList (shopProducts
        (process (Failed FetchProductsFromMongoDB 2 server_error_500)
           (run [Succeeded FetchProductsFromMongoDB 1 (Some [''p1'']), TryAgain] switched))) = []"
  using rejected_fetch_empties_product_list
    [of None initialState FetchProductsFromMongoDB 2 server_error_500
        "run [Succeeded FetchProductsFromMongoDB 1 (Some [''p1'']), TryAgain] switched"]
  by (simp add: process_def fetchProductsFromMongoDB_fulfilled_def)

subsection \<open>C10\<close>

text \<open>
  Claim C10 against the code. The handler slices each facet to its first ten values, but
  the query is never built: \<^verbatim>\<open>collection\<close>, called before the slices, is not a function
  of the module the controller takes it from. Every authenticated request is answered
  with a 500, whatever its filters, and every other one with a 401.
\<close>

theorem firebase_endpoint_builds_no_query:
  "getFilteredProductsFromFirebase firebase_admin_firestore req
     = (if verifyAuthentication req then Status500 else Status401)"
  by (rule handler_without_collection) (simp add: firebase_admin_firestore_def)

text \<open>
  The theorem at the request of a signed-in user with twelve categories and eleven
  brands: a 500, and no query with the first ten of each.
\<close>

theorem firebase_endpoint_builds_no_query_witness:
  "verifyAuthentication twelve_categories
   \<and> length (parse_values (category twelve_categories)) = 12
   \<and> length (parse_values (brand twelve_categories)) = 11
   \<and> getFilteredProductsFromFirebase firebase_admin_firestore twelve_categories = Status500"
proof -
  have 1: "verifyAuthentication twelve_categories"
    by (simp add: verifyAuthentication_def twelve_categories_def)
  have 2: "length (parse_values (category twelve_categories)) = 12"
    by (simp add: twelve_categories_def parse_twelve)
  have 3: "length (parse_values (brand twelve_categories)) = 11"
    by (simp add: twelve_categories_def parse_values_def)
  from firebase_endpoint_builds_no_query [of twelve_categories] 1 2 3 show ?thesis
    by simp
qed

end
